theory Spec2Isabelle
  imports Complex_Main "HOL-Library.Word"
begin

section \<open>Python values used by the notebook\<close>

text \<open>
  The notebook \<open>1_explore.ipynb\<close> is Python. Its failures are Python exceptions; the
  ones its code can raise are listed here. Indexing a list and indexing a numpy axis both
  raise \<open>IndexError\<close>; a true division or a modulo by zero raises
  \<open>ZeroDivisionError\<close>; Pillow refuses an empty target size with \<open>ValueError\<close>;
  opening an absent file raises \<open>FileNotFoundError\<close>.
\<close>

datatype py_error = IndexError | ZeroDivisionError | ValueError | FileNotFoundError

text \<open>
  \<open>xs[i]\<close>: positions \<open>0 .. len-1\<close> read from the front, positions
  \<open>-len .. -1\<close> read from the back, every other position raises.
\<close>

definition py_getitem :: "'a list \<Rightarrow> int \<Rightarrow> py_error + 'a" where
  "py_getitem xs i =
     (if 0 \<le> i \<and> i < int (length xs) then Inr (xs ! nat i)
      else if - int (length xs) \<le> i \<and> i < 0 then Inr (xs ! nat (i + int (length xs)))
      else Inl IndexError)"

text \<open>
  A numpy array is a nested list, outermost axis first. \<open>a[(i, j)]\<close> and
  \<open>a[(i, j, k)]\<close> index one axis after the other with the same rule per axis.
\<close>

definition np_getitem2 :: "'a list list \<Rightarrow> int \<times> int \<Rightarrow> py_error + 'a" where
  "np_getitem2 a ix =
     (case ix of (i, j) \<Rightarrow>
        (case py_getitem a i of Inl e \<Rightarrow> Inl e | Inr row \<Rightarrow> py_getitem row j))"

definition np_getitem3 :: "'a list list list \<Rightarrow> int \<times> int \<times> int \<Rightarrow> py_error + 'a" where
  "np_getitem3 a ix =
     (case ix of (i, j, k) \<Rightarrow>
        (case py_getitem a i of Inl e \<Rightarrow> Inl e | Inr plane \<Rightarrow> np_getitem2 plane (j, k)))"

section \<open>The detection decoder: \<open>postprocess\<close>\<close>

text \<open>
  \<^verbatim>\<open>
  def postprocess(raw_boxes, raw_scores, raw_class_indices):
      boxes, scores, detected_classes = [], [], []
      for raw_indices in raw_class_indices[0]:
          detected_classes.append(classes[raw_indices[1]])
          scores.append(raw_scores[tuple(raw_indices)])
          indices = (raw_indices[0], raw_indices[2])
          boxes.append(raw_boxes[indices])
      return boxes, scores, detected_classes
  \<close>
  \<open>classes\<close> is the label table imported from \<open>classes.py\<close>; it is a parameter
  here. \<open>raw_class_indices\<close> has shape \<open>(_, n, 3)\<close>: a row \<open>raw_indices\<close> is the
  triple \<open>(batch, class, candidate)\<close>. \<open>raw_scores\<close> has three axes and
  \<open>raw_boxes\<close> two, with a box as its element. The decoder only moves scores and boxes
  around, so their types are left open.
\<close>

type_synonym raw_indices = "int \<times> int \<times> int"

text \<open>The body of the loop: the three reads, in the order of the source.\<close>

definition postprocess_body ::
  "string list \<Rightarrow> 'b list list \<Rightarrow> 's list list list \<Rightarrow> raw_indices
     \<Rightarrow> py_error + ('b \<times> 's \<times> string)" where
  "postprocess_body classes raw_boxes raw_scores raw_ix =
     (case raw_ix of (b, c, k) \<Rightarrow>
        (case py_getitem classes c of
           Inl e \<Rightarrow> Inl e
         | Inr label \<Rightarrow>
             (case np_getitem3 raw_scores (b, c, k) of
                Inl e \<Rightarrow> Inl e
              | Inr score \<Rightarrow>
                  (case np_getitem2 raw_boxes (b, k) of
                     Inl e \<Rightarrow> Inl e
                   | Inr box \<Rightarrow> Inr (box, score, label)))))"

fun postprocess_loop ::
  "string list \<Rightarrow> 'b list list \<Rightarrow> 's list list list \<Rightarrow> raw_indices list
     \<Rightarrow> 'b list \<times> 's list \<times> string list
     \<Rightarrow> py_error + ('b list \<times> 's list \<times> string list)" where
  "postprocess_loop classes raw_boxes raw_scores [] acc = Inr acc"
| "postprocess_loop classes raw_boxes raw_scores (raw_ix # rest) (boxes, scores, detected_classes) =
     (case postprocess_body classes raw_boxes raw_scores raw_ix of
        Inl e \<Rightarrow> Inl e
      | Inr (box, score, label) \<Rightarrow>
          postprocess_loop classes raw_boxes raw_scores rest
            (boxes @ [box], scores @ [score], detected_classes @ [label]))"

definition postprocess ::
  "string list \<Rightarrow> 'b list list \<Rightarrow> 's list list list \<Rightarrow> raw_indices list list
     \<Rightarrow> py_error + ('b list \<times> 's list \<times> string list)" where
  "postprocess classes raw_boxes raw_scores raw_class_indices =
     (case py_getitem raw_class_indices 0 of
        Inl e \<Rightarrow> Inl e
      | Inr selected \<Rightarrow> postprocess_loop classes raw_boxes raw_scores selected ([], [], []))"

subsection \<open>Which inputs are in range\<close>

text \<open>
  An index is in range of an axis of length \<open>n\<close> in the plain sense when it lies in
  \<open>[0, n)\<close>, and in Python's sense when it lies in \<open>[-n, n)\<close>; \<open>py_pos\<close> is
  the position that Python reads then.
\<close>

definition in_range :: "nat \<Rightarrow> int \<Rightarrow> bool" where
  "in_range n i \<longleftrightarrow> 0 \<le> i \<and> i < int n"

definition py_in_range :: "nat \<Rightarrow> int \<Rightarrow> bool" where
  "py_in_range n i \<longleftrightarrow> - int n \<le> i \<and> i < int n"

definition py_pos :: "nat \<Rightarrow> int \<Rightarrow> nat" where
  "py_pos n i = nat (if i < 0 then i + int n else i)"

definition valid_triple ::
  "string list \<Rightarrow> 'b list list \<Rightarrow> 's list list list \<Rightarrow> raw_indices \<Rightarrow> bool" where
  "valid_triple classes raw_boxes raw_scores raw_ix =
     (case raw_ix of (b, c, k) \<Rightarrow>
        in_range (length classes) c \<and>
        in_range (length raw_scores) b \<and>
        in_range (length (raw_scores ! nat b)) c \<and>
        in_range (length (raw_scores ! nat b ! nat c)) k \<and>
        in_range (length raw_boxes) b \<and>
        in_range (length (raw_boxes ! nat b)) k)"

definition py_valid_triple ::
  "string list \<Rightarrow> 'b list list \<Rightarrow> 's list list list \<Rightarrow> raw_indices \<Rightarrow> bool" where
  "py_valid_triple classes raw_boxes raw_scores raw_ix =
     (case raw_ix of (b, c, k) \<Rightarrow>
        py_in_range (length classes) c \<and>
        py_in_range (length raw_scores) b \<and>
        py_in_range (length (raw_scores ! py_pos (length raw_scores) b)) c \<and>
        py_in_range
          (length (raw_scores ! py_pos (length raw_scores) b
                     ! py_pos (length (raw_scores ! py_pos (length raw_scores) b)) c)) k \<and>
        py_in_range (length raw_boxes) b \<and>
        py_in_range (length (raw_boxes ! py_pos (length raw_boxes) b)) k)"

text \<open>What Python reads for one triple when every index is in range in Python's sense.\<close>

definition py_label :: "string list \<Rightarrow> raw_indices \<Rightarrow> string" where
  "py_label classes raw_ix = (case raw_ix of (b, c, k) \<Rightarrow> classes ! py_pos (length classes) c)"

definition py_score :: "'s list list list \<Rightarrow> raw_indices \<Rightarrow> 's" where
  "py_score raw_scores raw_ix =
     (case raw_ix of (b, c, k) \<Rightarrow>
        (let plane = raw_scores ! py_pos (length raw_scores) b;
             row = plane ! py_pos (length plane) c
         in row ! py_pos (length row) k))"

definition py_box :: "'b list list \<Rightarrow> raw_indices \<Rightarrow> 'b" where
  "py_box raw_boxes raw_ix =
     (case raw_ix of (b, c, k) \<Rightarrow>
        (let row = raw_boxes ! py_pos (length raw_boxes) b in row ! py_pos (length row) k))"

section \<open>Numbers, strings and images\<close>

text \<open>
  Python floats and numpy's \<open>float32\<close> scalars are modelled by the reals they denote:
  \<open>nan\<close> and \<open>inf\<close> are left out. A float operation gives the exact result
  rounded to the nearest float. Where a float is turned into an integer (the scaled size
  of the letterbox, the percentage of a label) the rounding decides the outcome, and it is
  a parameter \<open>fl\<close> of the function, about which nothing is assumed; the coordinates of
  the renderer and the pixel values of the tensor, which stay floats, are computed with
  exact arithmetic. \<open>int(x)\<close> on a float drops the fraction, towards zero.
\<close>

definition py_int :: "real \<Rightarrow> int" where
  "py_int x = (if 0 \<le> x then \<lfloor>x\<rfloor> else \<lceil>x\<rceil>)"

text \<open>\<open>str(i)\<close> of an integer, as an f-string prints it: decimal digits, a minus sign first.\<close>

definition digit_char :: "nat \<Rightarrow> char" where
  "digit_char d = ''0123456789'' ! d"

fun nat_digits :: "nat \<Rightarrow> string" where
  "nat_digits n =
     (if n < 10 then [digit_char n] else nat_digits (n div 10) @ [digit_char (n mod 10)])"

declare nat_digits.simps [simp del]

definition py_str_int :: "int \<Rightarrow> string" where
  "py_str_int i = (if i < 0 then CHR ''-'' # nat_digits (nat (- i)) else nat_digits (nat i))"

text \<open>
  A decoded raster image: its \<open>size\<close> \<open>(width, height)\<close> and the RGB pixel at column
  \<open>x\<close>, row \<open>y\<close>, one byte per channel.
\<close>

type_synonym rgb = "8 word \<times> 8 word \<times> 8 word"

record image =
  im_size :: "int \<times> int"
  px :: "int \<Rightarrow> int \<Rightarrow> rgb"

section \<open>The letterbox transform: \<open>letterbox_image\<close> and \<open>transform\<close>\<close>

text \<open>
  The three Pillow calls of \<open>letterbox_image\<close>, as Pillow documents them.
  \<^item> \<open>Image.new('RGB', size, color)\<close> refuses a negative width or height with
    \<open>ValueError\<close> and otherwise gives an image of that size filled with the colour.
  \<^item> \<open>image.resize(size, BICUBIC)\<close> returns a copy when \<open>size\<close> is the image's own
    size, refuses a width or height below 1 with \<open>ValueError\<close> ("height and width
    must be > 0"), and otherwise gives an image of that size. Its pixels are what the
    bicubic filter computes; the filter is the parameter \<open>bicubic\<close>.
  \<^item> \<open>canvas.paste(im, (ox, oy))\<close> overwrites the pixels of the canvas under the
    rectangle of \<open>im\<close>'s size whose upper left corner is \<open>(ox, oy)\<close>.
\<close>

definition Image_new :: "int \<times> int \<Rightarrow> rgb \<Rightarrow> py_error + image" where
  "Image_new sz color =
     (case sz of (w, h) \<Rightarrow>
        if w < 0 \<or> h < 0 then Inl ValueError
        else Inr \<lparr>im_size = (w, h), px = (\<lambda>x y. color)\<rparr>)"

definition resize ::
  "(image \<Rightarrow> int \<times> int \<Rightarrow> int \<Rightarrow> int \<Rightarrow> rgb) \<Rightarrow> image \<Rightarrow> int \<times> int \<Rightarrow> py_error + image" where
  "resize bicubic img sz =
     (if im_size img = sz then Inr img
      else if fst sz < 1 \<or> snd sz < 1 then Inl ValueError
      else Inr \<lparr>im_size = sz, px = bicubic img sz\<rparr>)"

definition paste :: "image \<Rightarrow> image \<Rightarrow> int \<times> int \<Rightarrow> image" where
  "paste canvas im corner =
     (case corner of (ox, oy) \<Rightarrow> (case im_size im of (pw, ph) \<Rightarrow>
        canvas\<lparr>px := (\<lambda>x y.
          if ox \<le> x \<and> x < ox + pw \<and> oy \<le> y \<and> y < oy + ph then px im (x - ox) (y - oy)
          else px canvas x y)\<rparr>))"

text \<open>
  \<^verbatim>\<open>
  def letterbox_image(image, size):
      iw, ih = image.size
      w, h = size
      scale = min(w/iw, h/ih)
      nw = int(iw*scale)
      nh = int(ih*scale)

      image = image.resize((nw, nh), Image.Resampling.BICUBIC)
      new_image = Image.new('RGB', size, (128, 128, 128))
      new_image.paste(image, ((w-nw)//2, (h-nh)//2))
      return new_image
  \<close>
  The sizes are Python integers, so \<open>w/iw\<close> is a true division, which raises
  \<open>ZeroDivisionError\<close> on a zero divisor, and \<open>scale\<close>, \<open>iw*scale\<close> are Python
  floats. Each float operation gives the exact result rounded to a double; here, where
  the outcome is turned into an integer size, that rounding is the parameter \<open>fl\<close>,
  about which nothing is assumed (\<open>fl = (\<lambda>x. x)\<close> is exact arithmetic).
\<close>

definition letterbox_image ::
  "(real \<Rightarrow> real) \<Rightarrow> (image \<Rightarrow> int \<times> int \<Rightarrow> int \<Rightarrow> int \<Rightarrow> rgb) \<Rightarrow> image \<Rightarrow> int \<times> int
     \<Rightarrow> py_error + image" where
  "letterbox_image fl bicubic img sz =
     (case im_size img of (iw, ih) \<Rightarrow> (case sz of (w, h) \<Rightarrow>
        if iw = 0 then Inl ZeroDivisionError
        else if ih = 0 then Inl ZeroDivisionError
        else
          (let scale = min (fl (real_of_int w / real_of_int iw)) (fl (real_of_int h / real_of_int ih));
               nw = py_int (fl (real_of_int iw * scale));
               nh = py_int (fl (real_of_int ih * scale))
           in (case resize bicubic img (nw, nh) of
                 Inl e \<Rightarrow> Inl e
               | Inr resized \<Rightarrow>
                   (case Image_new sz (128, 128, 128) of
                      Inl e \<Rightarrow> Inl e
                    | Inr new_image \<Rightarrow>
                        Inr (paste new_image resized ((w - nw) div 2, (h - nh) div 2)))))))"

text \<open>
  A numpy array of numbers: its shape and the element at each index. The steps of
  \<open>transform\<close> on it: \<open>np.array(image, dtype='float32')\<close> has shape
  \<open>(height, width, 3)\<close> and holds channel \<open>c\<close> of the pixel in row \<open>y\<close>, column
  \<open>x\<close> at \<open>[y, x, c]\<close>; \<open>a /= 255.\<close> divides every element;
  \<open>np.transpose(a, [2, 0, 1])\<close> makes the old axes 2, 0, 1 the new axes 0, 1, 2;
  \<open>np.expand_dims(a, 0)\<close> puts an axis of length 1 in front.
\<close>

record ndarray =
  shape :: "nat list"
  elem :: "nat list \<Rightarrow> real"

definition channel :: "nat \<Rightarrow> rgb \<Rightarrow> 8 word" where
  "channel c p = (case p of (r, g, b) \<Rightarrow> if c = 0 then r else if c = 1 then g else b)"

definition np_array :: "image \<Rightarrow> ndarray" where
  "np_array img =
     (case im_size img of (w, h) \<Rightarrow>
        \<lparr>shape = [nat h, nat w, 3],
         elem = (\<lambda>ix. case ix of
                   [y, x, c] \<Rightarrow> real (unat (channel c (px img (int x) (int y))))
                 | _ \<Rightarrow> 0)\<rparr>)"

definition np_divide :: "ndarray \<Rightarrow> real \<Rightarrow> ndarray" where
  "np_divide a d = a\<lparr>elem := (\<lambda>ix. elem a ix / d)\<rparr>"

definition np_transpose_201 :: "ndarray \<Rightarrow> ndarray" where
  "np_transpose_201 a =
     \<lparr>shape = [shape a ! 2, shape a ! 0, shape a ! 1],
      elem = (\<lambda>ix. case ix of [i, j, k] \<Rightarrow> elem a [j, k, i] | _ \<Rightarrow> 0)\<rparr>"

definition np_expand_dims_0 :: "ndarray \<Rightarrow> ndarray" where
  "np_expand_dims_0 a =
     \<lparr>shape = 1 # shape a,
      elem = (\<lambda>ix. case ix of [] \<Rightarrow> 0 | b # rest \<Rightarrow> elem a rest)\<rparr>"

text \<open>
  \<^verbatim>\<open>
  def transform(image):
      model_image_size = (416, 416)
      boxed_image = letterbox_image(image, tuple(reversed(model_image_size)))
      image_data = np.array(boxed_image, dtype='float32')
      image_data /= 255.
      image_data = np.transpose(image_data, [2, 0, 1])
      image_data = np.expand_dims(image_data, 0)
      return image_data
  \<close>
\<close>

definition transform ::
  "(real \<Rightarrow> real) \<Rightarrow> (image \<Rightarrow> int \<times> int \<Rightarrow> int \<Rightarrow> int \<Rightarrow> rgb) \<Rightarrow> image \<Rightarrow> py_error + ndarray" where
  "transform fl bicubic img =
     (case letterbox_image fl bicubic img (416, 416) of
        Inl e \<Rightarrow> Inl e
      | Inr boxed_image \<Rightarrow>
          Inr (np_expand_dims_0 (np_transpose_201 (np_divide (np_array boxed_image) 255))))"

text \<open>An index is inside a shape when it has one position per axis, each below the axis length.\<close>

definition in_shape :: "nat list \<Rightarrow> nat list \<Rightarrow> bool" where
  "in_shape sh ix \<longleftrightarrow> list_all2 (\<lambda>i n. i < n) ix sh"

section \<open>The box renderer: \<open>draw_boxes\<close>\<close>

text \<open>
  Drawing goes through Pillow's \<open>ImageDraw\<close>. What it paints is recorded as the list of
  the calls made on the image, oldest first: \<open>draw.line(xy, width, fill)\<close>,
  \<open>draw.rectangle(xy, fill)\<close> and \<open>draw.text(xy, text, fill)\<close> (the font is always
  the default one). The pixels of an image being drawn on are those it was loaded with,
  painted over by these calls in order; an image with no call recorded shows the loaded
  pixels.
\<close>

datatype draw_op =
    Line "(real \<times> real) list" int "string option"
  | Rectangle "(real \<times> real) \<times> (real \<times> real)" "string option"
  | Text "real \<times> real" string string

record pil_image =
  loaded :: image
  drawn :: "draw_op list"

definition draw :: "draw_op \<Rightarrow> pil_image \<Rightarrow> pil_image" where
  "draw op img = img\<lparr>drawn := drawn img @ [op]\<rparr>"

text \<open>
  \<^verbatim>\<open>
      for display_str in display_str_list[::-1]:
          _, _, text_width, text_height = font.getbbox(display_str)
          margin = np.ceil(0.05 * text_height)
          draw.rectangle([(left, text_bottom - text_height - 2 * margin),
                          (left + text_width, text_bottom)], fill=color)
          draw.text((left + margin, text_bottom - text_height - margin),
                    display_str, fill="black", font=font)
          text_bottom -= text_height - 2 * margin
  \<close>
  \<open>getbbox\<close> stands for the metrics of the default font, which the notebook does not
  fix.
\<close>

type_synonym bbox = "real \<times> real \<times> real \<times> real"

fun draw_labels ::
  "(string \<Rightarrow> bbox) \<Rightarrow> real \<Rightarrow> string option \<Rightarrow> string list \<Rightarrow> real \<Rightarrow> pil_image
     \<Rightarrow> pil_image" where
  "draw_labels getbbox left color [] text_bottom img = img"
| "draw_labels getbbox left color (display_str # rest) text_bottom img =
     (case getbbox display_str of (_, _, text_width, text_height) \<Rightarrow>
        (let margin = real_of_int \<lceil>(5 / 100) * text_height\<rceil>;
             image1 = draw (Rectangle ((left, text_bottom - text_height - 2 * margin),
                                       (left + text_width, text_bottom)) color) img;
             image2 = draw (Text (left + margin, text_bottom - text_height - margin)
                                 display_str ''black'') image1
         in draw_labels getbbox left color rest
              (text_bottom - (text_height - 2 * margin)) image2))"

text \<open>
  \<^verbatim>\<open>
  def _draw_bounding_box_on_image(
          image, ymin, xmin, ymax, xmax, color, font,
          thickness=4, display_str_list=()):
      draw = ImageDraw.Draw(image)
      im_width, im_height = image.size
      width_scaling_factor = im_width / 416
      height_scaling_factor = im_height / 416
      (left, right, top, bottom) = (
          xmin * width_scaling_factor,
          xmax * width_scaling_factor,
          ymin * height_scaling_factor,
          ymax * height_scaling_factor,
      )
      draw.line([(left, top), (left, bottom), (right, bottom), (right, top),
                 (left, top)], width=thickness, fill=color)

      display_str_heights = [font.getbbox(ds)[3] for ds in display_str_list]
      total_display_str_height = (1 + 2 * 0.05) * sum(display_str_heights)
      if top > total_display_str_height:
          text_bottom = top
      else:
          text_bottom = top + total_display_str_height
      ...
  \<close>
\<close>

definition draw_bounding_box_on_image ::
  "(string \<Rightarrow> bbox) \<Rightarrow> pil_image \<Rightarrow> real \<Rightarrow> real \<Rightarrow> real \<Rightarrow> real \<Rightarrow> string option
     \<Rightarrow> int \<Rightarrow> string list \<Rightarrow> pil_image" where
  "draw_bounding_box_on_image getbbox img ymin xmin ymax xmax color thickness display_str_list =
     (case im_size (loaded img) of (im_width, im_height) \<Rightarrow>
        (let width_scaling_factor = real_of_int im_width / 416;
             height_scaling_factor = real_of_int im_height / 416;
             left = xmin * width_scaling_factor;
             right = xmax * width_scaling_factor;
             top' = ymin * height_scaling_factor;
             bottom = ymax * height_scaling_factor;
             image1 = draw (Line [(left, top'), (left, bottom), (right, bottom), (right, top'),
                                  (left, top')] thickness color) img;
             display_str_heights =
               map (\<lambda>ds. case getbbox ds of (_, _, _, b) \<Rightarrow> b) display_str_list;
             total_display_str_height = (1 + 2 * (5 / 100)) * sum_list display_str_heights;
             text_bottom =
               (if top' > total_display_str_height then top'
                else top' + total_display_str_height)
         in draw_labels getbbox left color (rev display_str_list) text_bottom image1))"

text \<open>
  \<^verbatim>\<open>
  def draw_boxes(image, boxes, scores, classes):
      colors = list(ImageColor.colormap.values())
      class_colors = {}
      font = ImageFont.load_default()
      image_pil = Image.open(image)

      for index, class_ in enumerate(classes):
          box = boxes[index]
          display_str = f'{class_}: {int(100 * scores[index])}%'
          if class_ not in class_colors:
              class_colors[class_] = colors[hash(class_) * 8 % len(colors)]
          color = class_colors.get(class_)
          _draw_bounding_box_on_image(
              image_pil, box[0], box[1], box[2], box[3], color, font,
              display_str_list=[display_str]
          )
      return image_pil
  \<close>
  The argument \<open>image\<close> is a file name (\<open>image_path\<close> below). The files are the
  state \<open>world\<close>, which the function gets and gives back. The palette \<open>colors\<close> and
  Python's string \<open>hash\<close> (seeded per process) are parameters. A box is the row of four
  numbers \<open>(ymin, xmin, ymax, xmax)\<close>. The product \<open>100 * scores[index]\<close> is a float
  product: the exact product rounded by the parameter \<open>fl\<close>. The statement after \<open>return\<close> in the source
  (\<open>image_pil.show()\<close>) is never reached. Where a name of the source is taken in HOL it
  is changed: \<open>image\<close> is \<open>img\<close>, \<open>top\<close> is \<open>top'\<close>, \<open>class_\<close> is
  \<open>class_name\<close>, and \<open>_draw_bounding_box_on_image\<close> loses its underscore.
\<close>

record world =
  files :: "string \<rightharpoonup> image"

definition display_str :: "(real \<Rightarrow> real) \<Rightarrow> string \<Rightarrow> real \<Rightarrow> string" where
  "display_str fl class_name score =
     class_name @ '': '' @ py_str_int (py_int (fl (100 * score))) @ ''%''"

definition palette_color :: "string list \<Rightarrow> (string \<Rightarrow> int) \<Rightarrow> string \<Rightarrow> py_error + string" where
  "palette_color colors hash class_name =
     (if length colors = 0 then Inl ZeroDivisionError
      else py_getitem colors ((hash class_name * 8) mod int (length colors)))"

fun draw_boxes_loop ::
  "(real \<Rightarrow> real) \<Rightarrow> string list \<Rightarrow> (string \<Rightarrow> int) \<Rightarrow> (string \<Rightarrow> bbox) \<Rightarrow> bbox list \<Rightarrow> real list
     \<Rightarrow> nat \<Rightarrow> string list \<Rightarrow> (string \<rightharpoonup> string) \<times> pil_image
     \<Rightarrow> py_error + ((string \<rightharpoonup> string) \<times> pil_image)" where
  "draw_boxes_loop fl colors hash getbbox boxes scores index [] st = Inr st"
| "draw_boxes_loop fl colors hash getbbox boxes scores index (class_name # rest) (class_colors, image_pil) =
     (case py_getitem boxes (int index) of
        Inl e \<Rightarrow> Inl e
      | Inr (ymin, xmin, ymax, xmax) \<Rightarrow>
          (case py_getitem scores (int index) of
             Inl e \<Rightarrow> Inl e
           | Inr score \<Rightarrow>
               (case (if class_name \<notin> dom class_colors
                      then (case palette_color colors hash class_name of
                              Inl e \<Rightarrow> Inl e
                            | Inr c \<Rightarrow> Inr (class_colors(class_name \<mapsto> c)))
                      else Inr class_colors) of
                  Inl e \<Rightarrow> Inl e
                | Inr class_colors1 \<Rightarrow>
                    draw_boxes_loop fl colors hash getbbox boxes scores (Suc index) rest
                      (class_colors1,
                       draw_bounding_box_on_image getbbox image_pil ymin xmin ymax xmax
                         (class_colors1 class_name) 4 [display_str fl class_name score]))))"

definition draw_boxes ::
  "(real \<Rightarrow> real) \<Rightarrow> string list \<Rightarrow> (string \<Rightarrow> int) \<Rightarrow> (string \<Rightarrow> bbox) \<Rightarrow> world \<Rightarrow> string \<Rightarrow> bbox list
     \<Rightarrow> real list \<Rightarrow> string list \<Rightarrow> (py_error + pil_image) \<times> world" where
  "draw_boxes fl colors hash getbbox w image_path boxes scores classes =
     (case files w image_path of
        None \<Rightarrow> (Inl FileNotFoundError, w)
      | Some im \<Rightarrow>
          (case draw_boxes_loop fl colors hash getbbox boxes scores 0 classes
                  (Map.empty, \<lparr>loaded = im, drawn = []\<rparr>) of
             Inl e \<Rightarrow> (Inl e, w)
           | Inr (class_colors, image_pil) \<Rightarrow> (Inr image_pil, w)))"

text \<open>What was drawn, read back: the corner lists of the lines and the strings of the texts.\<close>

fun op_outline :: "draw_op \<Rightarrow> (real \<times> real) list option" where
  "op_outline (Line xy width fill) = Some xy"
| "op_outline (Rectangle xy fill) = None"
| "op_outline (Text xy str fill) = None"

fun op_text :: "draw_op \<Rightarrow> string option" where
  "op_text (Line xy width fill) = None"
| "op_text (Rectangle xy fill) = None"
| "op_text (Text xy str fill) = Some str"

definition outlines :: "draw_op list \<Rightarrow> (real \<times> real) list list" where
  "outlines ops = List.map_filter op_outline ops"

definition texts :: "draw_op list \<Rightarrow> string list" where
  "texts ops = List.map_filter op_text ops"

definition box_outline :: "int \<times> int \<Rightarrow> bbox \<Rightarrow> (real \<times> real) list" where
  "box_outline sz box =
     (case sz of (W, H) \<Rightarrow> (case box of (ymin, xmin, ymax, xmax) \<Rightarrow>
        [(xmin * (real_of_int W / 416), ymin * (real_of_int H / 416)),
         (xmin * (real_of_int W / 416), ymax * (real_of_int H / 416)),
         (xmax * (real_of_int W / 416), ymax * (real_of_int H / 416)),
         (xmax * (real_of_int W / 416), ymin * (real_of_int H / 416)),
         (xmin * (real_of_int W / 416), ymin * (real_of_int H / 416))]))"

section \<open>Facts about indexing\<close>

lemma py_getitem_in_range:
  "py_in_range (length xs) i \<Longrightarrow> py_getitem xs i = Inr (xs ! py_pos (length xs) i)"
  by (auto simp: py_getitem_def py_in_range_def py_pos_def)

lemma py_getitem_out_of_range:
  "\<not> py_in_range (length xs) i \<Longrightarrow> py_getitem xs i = Inl IndexError"
  by (auto simp: py_getitem_def py_in_range_def)

lemma py_getitem_error: "py_getitem xs i = Inl e \<Longrightarrow> e = IndexError"
  by (auto simp: py_getitem_def split: if_splits)

lemma in_range_py: "in_range n i \<Longrightarrow> py_in_range n i \<and> py_pos n i = nat i"
  by (auto simp: in_range_def py_in_range_def py_pos_def)

lemma postprocess_body_py_valid:
  assumes "py_valid_triple classes rb rs t"
  shows "postprocess_body classes rb rs t = Inr (py_box rb t, py_score rs t, py_label classes t)"
proof -
  obtain b c k where t: "t = (b, c, k)" by (cases t) auto
  from assms show ?thesis
    unfolding t
    by (simp add: py_valid_triple_def postprocess_body_def np_getitem3_def np_getitem2_def
        py_getitem_in_range py_box_def py_score_def py_label_def Let_def)
qed

lemma postprocess_body_error: "postprocess_body classes rb rs t = Inl e \<Longrightarrow> e = IndexError"
  by (auto simp: postprocess_body_def np_getitem3_def np_getitem2_def
      split: prod.splits sum.splits dest: py_getitem_error)

lemma postprocess_body_bad_class:
  "\<not> py_in_range (length classes) c \<Longrightarrow> postprocess_body classes rb rs (b, c, k) = Inl IndexError"
  by (simp add: postprocess_body_def py_getitem_out_of_range)

lemma postprocess_loop_py_valid:
  "\<forall>t \<in> set sel. py_valid_triple classes rb rs t \<Longrightarrow>
   postprocess_loop classes rb rs sel (B, S, D) =
     Inr (B @ map (py_box rb) sel, S @ map (py_score rs) sel, D @ map (py_label classes) sel)"
proof (induction sel arbitrary: B S D)
  case Nil
  then show ?case by simp
next
  case (Cons t sel)
  then show ?case by (simp add: postprocess_body_py_valid)
qed

lemma postprocess_loop_error:
  "postprocess_loop classes rb rs sel acc = Inl e \<Longrightarrow> e = IndexError"
proof (induction sel arbitrary: acc)
  case Nil
  then show ?case by simp
next
  case (Cons t sel)
  obtain B S D where acc: "acc = (B, S, D)" by (cases acc) auto
  from Cons show ?case
    unfolding acc
    by (auto split: sum.splits prod.splits dest: postprocess_body_error)
qed

lemma postprocess_loop_fails:
  "t \<in> set sel \<Longrightarrow> postprocess_body classes rb rs t = Inl e \<Longrightarrow>
   postprocess_loop classes rb rs sel acc = Inl IndexError"
proof (induction sel arbitrary: acc)
  case Nil
  then show ?case by simp
next
  case (Cons u sel)
  obtain B S D where acc: "acc = (B, S, D)" by (cases acc) auto
  show ?case
  proof (cases "postprocess_body classes rb rs u")
    case (Inl e')
    then show ?thesis unfolding acc by (simp add: postprocess_body_error)
  next
    case (Inr r)
    then have "u \<noteq> t" using Cons.prems(2) by auto
    then have "t \<in> set sel" using Cons.prems(1) by auto
    then show ?thesis
      unfolding acc using Inr Cons.IH Cons.prems(2) by (simp split: prod.splits)
  qed
qed

lemma postprocess_first_slice:
  "postprocess classes rb rs (sel # others) = postprocess_loop classes rb rs sel ([], [], [])"
  by (simp add: postprocess_def py_getitem_def)

section \<open>Facts about drawing\<close>

lemma draw_fields [simp]:
  "drawn (draw op img) = drawn img @ [op]" "loaded (draw op img) = loaded img"
  by (simp_all add: draw_def)

lemma outlines_append [simp]: "outlines (xs @ ys) = outlines xs @ outlines ys"
  by (simp add: outlines_def map_filter_def)

lemma texts_append [simp]: "texts (xs @ ys) = texts xs @ texts ys"
  by (simp add: texts_def map_filter_def)

lemma outlines_Cons [simp]:
  "outlines [] = []" "outlines (Line xy width fill # ops) = xy # outlines ops"
  "outlines (Rectangle r fill # ops) = outlines ops"
  "outlines (Text pos str ink # ops) = outlines ops"
  by (simp_all add: outlines_def map_filter_def)

lemma texts_Cons [simp]:
  "texts [] = []" "texts (Line xy width fill # ops) = texts ops"
  "texts (Rectangle r fill # ops) = texts ops"
  "texts (Text pos str ink # ops) = str # texts ops"
  by (simp_all add: texts_def map_filter_def)

lemma draw_labels_facts:
  "loaded (draw_labels getbbox left color strs text_bottom img) = loaded img \<and>
   outlines (drawn (draw_labels getbbox left color strs text_bottom img)) = outlines (drawn img) \<and>
   texts (drawn (draw_labels getbbox left color strs text_bottom img)) = texts (drawn img) @ strs"
proof (induction strs arbitrary: text_bottom img)
  case Nil
  then show ?case by simp
next
  case (Cons ds strs)
  obtain l t tw th where bb: "getbbox ds = (l, t, tw, th)" by (cases "getbbox ds") auto
  show ?case by (simp add: bb Let_def Cons.IH)
qed

lemma draw_bounding_box_facts:
  "loaded (draw_bounding_box_on_image getbbox img ymin xmin ymax xmax color thickness strs) =
     loaded img \<and>
   outlines (drawn (draw_bounding_box_on_image getbbox img ymin xmin ymax xmax color thickness strs)) =
     outlines (drawn img) @ [box_outline (im_size (loaded img)) (ymin, xmin, ymax, xmax)] \<and>
   texts (drawn (draw_bounding_box_on_image getbbox img ymin xmin ymax xmax color thickness strs)) =
     texts (drawn img) @ rev strs"
proof -
  obtain W H where sz: "im_size (loaded img) = (W, H)" by (cases "im_size (loaded img)") auto
  show ?thesis
    by (simp add: draw_bounding_box_on_image_def sz Let_def draw_labels_facts box_outline_def)
qed

lemma palette_color_ok:
  "colors \<noteq> [] \<Longrightarrow> \<exists>c. palette_color colors hash class_name = Inr c"
proof -
  assume ne: "colors \<noteq> []"
  then have pos: "0 < int (length colors)" by simp
  have "0 \<le> (hash class_name * 8) mod int (length colors)"
    using pos by (rule pos_mod_sign)
  moreover have "(hash class_name * 8) mod int (length colors) < int (length colors)"
    using pos by (rule pos_mod_bound)
  ultimately show ?thesis
    using ne by (simp add: palette_color_def py_getitem_def)
qed

lemma py_getitem_nat: "n < length xs \<Longrightarrow> py_getitem xs (int n) = Inr (xs ! n)"
  by (simp add: py_getitem_def)

lemma draw_boxes_loop_facts:
  assumes "colors \<noteq> []"
    and "index + length cs \<le> length boxes" and "index + length cs \<le> length scores"
  shows "\<exists>cc' img'.
           draw_boxes_loop fl colors hash getbbox boxes scores index cs (cc, img) = Inr (cc', img') \<and>
           loaded img' = loaded img \<and>
           outlines (drawn img') =
             outlines (drawn img) @
             map (box_outline (im_size (loaded img))) (take (length cs) (drop index boxes)) \<and>
           texts (drawn img') =
             texts (drawn img) @ map2 (display_str fl) cs (take (length cs) (drop index scores))"
  using assms(2,3)
proof (induction cs arbitrary: index cc img)
  case Nil
  then show ?case by simp
next
  case (Cons c cs)
  have ib: "index < length boxes" and isc: "index < length scores"
    using Cons.prems by simp_all
  obtain ymin xmin ymax xmax where box: "boxes ! index = (ymin, xmin, ymax, xmax)"
    by (cases "boxes ! index") auto
  obtain col where col: "palette_color colors hash c = Inr col"
    using palette_color_ok [OF assms(1)] by blast
  define cc1 where "cc1 = (if c \<notin> dom cc then cc(c \<mapsto> col) else cc)"
  define img1 where "img1 =
    draw_bounding_box_on_image getbbox img ymin xmin ymax xmax (cc1 c) 4
      [display_str fl c (scores ! index)]"
  have step: "draw_boxes_loop fl colors hash getbbox boxes scores index (c # cs) (cc, img) =
      draw_boxes_loop fl colors hash getbbox boxes scores (Suc index) cs (cc1, img1)"
    by (simp add: py_getitem_nat [OF ib] py_getitem_nat [OF isc] box col cc1_def img1_def)
  have l1: "loaded img1 = loaded img"
    and o1: "outlines (drawn img1) =
      outlines (drawn img) @ [box_outline (im_size (loaded img)) (boxes ! index)]"
    and t1: "texts (drawn img1) = texts (drawn img) @ [display_str fl c (scores ! index)]"
    unfolding img1_def box by (simp_all add: draw_bounding_box_facts)
  have "Suc index + length cs \<le> length boxes" "Suc index + length cs \<le> length scores"
    using Cons.prems by simp_all
  from Cons.IH [OF this, of cc1 img1]
  obtain cc' img' where
    r: "draw_boxes_loop fl colors hash getbbox boxes scores (Suc index) cs (cc1, img1) = Inr (cc', img')"
    and l: "loaded img' = loaded img1"
    and o: "outlines (drawn img') =
      outlines (drawn img1) @
      map (box_outline (im_size (loaded img1))) (take (length cs) (drop (Suc index) boxes))"
    and t: "texts (drawn img') =
      texts (drawn img1) @ map2 (display_str fl) cs (take (length cs) (drop (Suc index) scores))"
    by blast
  have db: "drop index boxes = boxes ! index # drop (Suc index) boxes"
    using ib by (simp add: Cons_nth_drop_Suc)
  have ds: "drop index scores = scores ! index # drop (Suc index) scores"
    using isc by (simp add: Cons_nth_drop_Suc)
  show ?case
    unfolding step using r l o t l1 o1 t1 by (simp add: db ds)
qed

lemma draw_boxes_facts:
  assumes "files w image_path = Some im" and "colors \<noteq> []"
    and "length classes \<le> length boxes" and "length classes \<le> length scores"
  shows "\<exists>image_pil.
           draw_boxes fl colors hash getbbox w image_path boxes scores classes = (Inr image_pil, w) \<and>
           loaded image_pil = im \<and>
           outlines (drawn image_pil) = map (box_outline (im_size im)) (take (length classes) boxes) \<and>
           texts (drawn image_pil) = map2 (display_str fl) classes (take (length classes) scores)"
proof -
  have "0 + length classes \<le> length boxes" "0 + length classes \<le> length scores"
    using assms(3,4) by simp_all
  from draw_boxes_loop_facts [OF assms(2) this, of fl hash getbbox Map.empty "\<lparr>loaded = im, drawn = []\<rparr>"]
  obtain cc' img' where
    "draw_boxes_loop fl colors hash getbbox boxes scores 0 classes
       (Map.empty, \<lparr>loaded = im, drawn = []\<rparr>) = Inr (cc', img')"
    "loaded img' = im"
    "outlines (drawn img') = map (box_outline (im_size im)) (take (length classes) boxes)"
    "texts (drawn img') = map2 (display_str fl) classes (take (length classes) scores)"
    by auto
  then show ?thesis
    using assms(1) by (simp add: draw_boxes_def)
qed

lemma draw_boxes_world: "snd (draw_boxes fl colors hash getbbox w image_path boxes scores classes) = w"
  by (simp add: draw_boxes_def split: option.splits sum.splits prod.splits)

lemma draw_labels_drawn:
  "\<exists>label_ops.
     drawn (draw_labels getbbox left color strs text_bottom img) = drawn img @ label_ops \<and>
     outlines label_ops = []"
proof (induction strs arbitrary: text_bottom img)
  case Nil
  then show ?case by simp
next
  case (Cons ds strs)
  obtain l t tw th where bb: "getbbox ds = (l, t, tw, th)" by (cases "getbbox ds") auto
  define margin where "margin = real_of_int \<lceil>(5 / 100) * th\<rceil>"
  define img2 where "img2 =
    draw (Text (left + margin, text_bottom - th - margin) ds ''black'')
      (draw (Rectangle ((left, text_bottom - th - 2 * margin), (left + tw, text_bottom)) color) img)"
  have step: "draw_labels getbbox left color (ds # strs) text_bottom img =
      draw_labels getbbox left color strs (text_bottom - (th - 2 * margin)) img2"
    by (simp add: bb Let_def margin_def img2_def)
  from Cons.IH [of "text_bottom - (th - 2 * margin)" img2]
  obtain rest_ops where
    r: "drawn (draw_labels getbbox left color strs (text_bottom - (th - 2 * margin)) img2) =
          drawn img2 @ rest_ops"
    and o: "outlines rest_ops = []"
    by blast
  have "drawn img2 =
      drawn img @
      [Rectangle ((left, text_bottom - th - 2 * margin), (left + tw, text_bottom)) color,
       Text (left + margin, text_bottom - th - margin) ds ''black'']"
    by (simp add: img2_def)
  then have "drawn (draw_labels getbbox left color (ds # strs) text_bottom img) =
      drawn img @
      ([Rectangle ((left, text_bottom - th - 2 * margin), (left + tw, text_bottom)) color,
        Text (left + margin, text_bottom - th - margin) ds ''black''] @ rest_ops)"
    unfolding step r by simp
  moreover have "outlines
      ([Rectangle ((left, text_bottom - th - 2 * margin), (left + tw, text_bottom)) color,
        Text (left + margin, text_bottom - th - margin) ds ''black''] @ rest_ops) = []"
    using o by simp
  ultimately show ?case by blast
qed

lemma draw_bounding_box_drawn:
  "\<exists>label_ops.
     drawn (draw_bounding_box_on_image getbbox img ymin xmin ymax xmax color thickness strs) =
       drawn img @
       Line (box_outline (im_size (loaded img)) (ymin, xmin, ymax, xmax)) thickness color #
       label_ops \<and>
     outlines label_ops = []"
proof -
  obtain W H where sz: "im_size (loaded img) = (W, H)" by (cases "im_size (loaded img)") auto
  define left where "left = xmin * (real_of_int W / 416)"
  define top' where "top' = ymin * (real_of_int H / 416)"
  define total where
    "total = (1 + 2 * (5 / 100)) * sum_list (map (\<lambda>ds. case getbbox ds of (_, _, _, b) \<Rightarrow> b) strs)"
  define img1 where
    "img1 = draw (Line (box_outline (W, H) (ymin, xmin, ymax, xmax)) thickness color) img"
  have eq: "draw_bounding_box_on_image getbbox img ymin xmin ymax xmax color thickness strs =
      draw_labels getbbox left color (rev strs)
        (if top' > total then top' else top' + total) img1"
    by (simp add: draw_bounding_box_on_image_def sz Let_def left_def top'_def total_def
        img1_def box_outline_def)
  from draw_labels_drawn [of getbbox left color "rev strs"
      "if top' > total then top' else top' + total" img1]
  obtain label_ops where
    "drawn (draw_labels getbbox left color (rev strs)
        (if top' > total then top' else top' + total) img1) = drawn img1 @ label_ops"
    and "outlines label_ops = []"
    by blast
  then show ?thesis
    unfolding eq sz by (simp add: img1_def)
qed

section \<open>Facts about the letterbox transform\<close>

lemma py_int_floor: "1 \<le> \<lfloor>x\<rfloor> \<Longrightarrow> py_int x = \<lfloor>x\<rfloor>"
  by (simp add: py_int_def le_floor_iff)

lemma resize_ok:
  "1 \<le> nw \<Longrightarrow> 1 \<le> nh \<Longrightarrow>
   resize bicubic img (nw, nh) =
     Inr \<lparr>im_size = (nw, nh),
          px = (if im_size img = (nw, nh) then px img else bicubic img (nw, nh))\<rparr>"
  by (simp add: resize_def)

lemma letterbox_image_ok:
  assumes "im_size img = (iw, ih)" and "iw \<noteq> 0" and "ih \<noteq> 0" and "0 \<le> w" and "0 \<le> h"
    and "scale = min (fl (real_of_int w / real_of_int iw)) (fl (real_of_int h / real_of_int ih))"
    and "nw = \<lfloor>fl (real_of_int iw * scale)\<rfloor>" and "nh = \<lfloor>fl (real_of_int ih * scale)\<rfloor>"
    and "1 \<le> nw" and "1 \<le> nh"
  shows "letterbox_image fl bicubic img (w, h) =
     Inr \<lparr>im_size = (w, h),
          px = (\<lambda>x y.
            if (w - nw) div 2 \<le> x \<and> x < (w - nw) div 2 + nw \<and>
               (h - nh) div 2 \<le> y \<and> y < (h - nh) div 2 + nh
            then (if (iw, ih) = (nw, nh) then px img else bicubic img (nw, nh))
                   (x - (w - nw) div 2) (y - (h - nh) div 2)
            else (128, 128, 128))\<rparr>"
proof -
  have nw: "py_int (fl (real_of_int iw * scale)) = nw"
    using assms(7,9) by (simp add: py_int_floor)
  have nh: "py_int (fl (real_of_int ih * scale)) = nh"
    using assms(8,10) by (simp add: py_int_floor)
  show ?thesis
    using assms(1-5,9,10)
    by (simp add: letterbox_image_def Let_def assms(6) [symmetric] nw nh resize_ok Image_new_def
        paste_def cong: if_cong)
qed

lemma tensor_elem_unit:
  "0 \<le> elem (np_expand_dims_0 (np_transpose_201 (np_divide (np_array img) 255))) ix \<and>
   elem (np_expand_dims_0 (np_transpose_201 (np_divide (np_array img) 255))) ix \<le> 1"
proof -
  have byte: "(unsigned (b :: 8 word) :: real) \<le> 255" for b
  proof -
    have "unat b < 2 ^ LENGTH(8)" by (rule unsigned_less)
    then have "unat b \<le> 255" by simp
    then have "real (unat b) \<le> real 255" by (simp only: of_nat_le_iff)
    then show ?thesis by simp
  qed
  have nonneg: "(0 :: real) \<le> unsigned (b :: 8 word)" for b
  proof -
    have "(0 :: real) \<le> real (unat b)" by (rule of_nat_0_le_iff)
    then show ?thesis by simp
  qed
  obtain w h where sz: "im_size img = (w, h)" by (cases "im_size img") auto
  show ?thesis
    by (simp add: np_expand_dims_0_def np_transpose_201_def np_divide_def np_array_def sz byte
        nonneg split: list.splits)
qed

lemma tensor_elem_at:
  "elem (np_expand_dims_0 (np_transpose_201 (np_divide (np_array img) 255))) [b, c, y, x] =
   real (unat (channel c (px img (int x) (int y)))) / 255"
proof -
  obtain w h where sz: "im_size img = (w, h)" by (cases "im_size img") auto
  show ?thesis
    by (simp add: np_expand_dims_0_def np_transpose_201_def np_divide_def np_array_def sz)
qed

lemma tensor_shape:
  "im_size img = (w, h) \<Longrightarrow>
   shape (np_expand_dims_0 (np_transpose_201 (np_divide (np_array img) 255))) =
     [1, 3, nat h, nat w]"
  by (simp add: np_expand_dims_0_def np_transpose_201_def np_divide_def np_array_def)

section \<open>Properties of the decoder\<close>

text \<open>
  C1 (gather correctness). When every triple of the decoded slice is in range in the plain
  sense (each index in \<open>[0, len)\<close> of its axis), \<open>postprocess\<close> returns three lists as
  long as the slice, and at every position \<open>i\<close> the label is
  \<open>classes[classIdx]\<close>, the score is \<open>scores[batchIdx, classIdx, candidateIdx]\<close>
  and the box is \<open>boxes[batchIdx, candidateIdx]\<close> of the \<open>i\<close>-th triple. In
  particular, whenever \<open>boxes[0][5] = (10, 20, 110, 120)\<close>,
  \<open>scores[0][3][5] = 0.87\<close> and \<open>classes[3] = "cat"\<close>, decoding the single triple
  \<open>(0, 3, 5)\<close> gives exactly that one detection.
\<close>

theorem postprocess_gather:
  "((\<forall>t \<in> set sel. valid_triple classes rb rs t) \<longrightarrow>
      (\<exists>boxes scores labels.
         postprocess classes rb rs (sel # others) = Inr (boxes, scores, labels) \<and>
         length boxes = length sel \<and> length scores = length sel \<and>
         length labels = length sel \<and>
         (\<forall>i < length sel.
            (case sel ! i of (b, c, k) \<Rightarrow>
               labels ! i = classes ! nat c \<and>
               scores ! i = rs ! nat b ! nat c ! nat k \<and>
               boxes ! i = rb ! nat b ! nat k)))) \<and>
   (0 < length rb' \<and> 5 < length (rb' ! 0) \<and> rb' ! 0 ! 5 = (10, 20, 110, 120) \<and>
    0 < length rs' \<and> 3 < length (rs' ! 0) \<and> 5 < length (rs' ! 0 ! 3) \<and>
    rs' ! 0 ! 3 ! 5 = 87 / 100 \<and>
    3 < length classes' \<and> classes' ! 3 = ''cat'' \<longrightarrow>
      postprocess classes' rb' rs' [[(0, 3, 5)]] =
        Inr ([(10 :: real, 20 :: real, 110 :: real, 120 :: real)], [87 / 100 :: real], [''cat'']))"
proof (intro conjI impI)
  assume valid: "\<forall>t \<in> set sel. valid_triple classes rb rs t"
  have py: "\<forall>t \<in> set sel. py_valid_triple classes rb rs t"
  proof
    fix t assume "t \<in> set sel"
    with valid have v: "valid_triple classes rb rs t" by blast
    obtain b c k where t: "t = (b, c, k)" by (cases t) auto
    from v show "py_valid_triple classes rb rs t"
      unfolding t by (simp add: valid_triple_def py_valid_triple_def in_range_py)
  qed
  have res: "postprocess classes rb rs (sel # others) =
      Inr (map (py_box rb) sel, map (py_score rs) sel, map (py_label classes) sel)"
    using postprocess_loop_py_valid [OF py, of "[]" "[]" "[]"]
    by (simp add: postprocess_first_slice)
  have pointwise: "\<forall>i < length sel.
      (case sel ! i of (b, c, k) \<Rightarrow>
         map (py_label classes) sel ! i = classes ! nat c \<and>
         map (py_score rs) sel ! i = rs ! nat b ! nat c ! nat k \<and>
         map (py_box rb) sel ! i = rb ! nat b ! nat k)"
  proof (intro allI impI)
    fix i assume i: "i < length sel"
    obtain b c k where t: "sel ! i = (b, c, k)" by (cases "sel ! i") auto
    have "valid_triple classes rb rs (b, c, k)"
      using valid i t nth_mem [OF i] by auto
    then show "case sel ! i of (b, c, k) \<Rightarrow>
         map (py_label classes) sel ! i = classes ! nat c \<and>
         map (py_score rs) sel ! i = rs ! nat b ! nat c ! nat k \<and>
         map (py_box rb) sel ! i = rb ! nat b ! nat k"
      using i t
      by (simp add: valid_triple_def py_label_def py_score_def py_box_def in_range_py Let_def)
  qed
  show "\<exists>boxes scores labels.
         postprocess classes rb rs (sel # others) = Inr (boxes, scores, labels) \<and>
         length boxes = length sel \<and> length scores = length sel \<and>
         length labels = length sel \<and>
         (\<forall>i < length sel.
            (case sel ! i of (b, c, k) \<Rightarrow>
               labels ! i = classes ! nat c \<and>
               scores ! i = rs ! nat b ! nat c ! nat k \<and>
               boxes ! i = rb ! nat b ! nat k))"
    using res pointwise by simp
next
  assume ex: "0 < length rb' \<and> 5 < length (rb' ! 0) \<and> rb' ! 0 ! 5 = (10, 20, 110, 120) \<and>
    0 < length rs' \<and> 3 < length (rs' ! 0) \<and> 5 < length (rs' ! 0 ! 3) \<and>
    rs' ! 0 ! 3 ! 5 = 87 / 100 \<and>
    3 < length classes' \<and> classes' ! 3 = ''cat''"
  then have "py_valid_triple classes' rb' rs' (0, 3, 5)"
    by (simp add: py_valid_triple_def py_in_range_def py_pos_def)
  then have "postprocess_body classes' rb' rs' (0, 3, 5) =
      Inr (py_box rb' (0, 3, 5), py_score rs' (0, 3, 5), py_label classes' (0, 3, 5))"
    by (rule postprocess_body_py_valid)
  with ex show "postprocess classes' rb' rs' [[(0, 3, 5)]] =
        Inr ([(10, 20, 110, 120)], [87 / 100], [''cat''])"
    by (simp add: postprocess_first_slice py_box_def py_score_def py_label_def py_pos_def)
qed

theorem postprocess_gather_witness:
  "valid_triple [''person'', ''bicycle'', ''car'', ''cat'']
     [[(0, 0, 0, 0), (0, 0, 0, 0), (0, 0, 0, 0), (0, 0, 0, 0), (0, 0, 0, 0),
       (10 :: real, 20 :: real, 110 :: real, 120 :: real)]]
     [[[], [], [], [0, 0, 0, 0, 0, 87 / 100 :: real]]] (0, 3, 5) \<and>
   postprocess [''person'', ''bicycle'', ''car'', ''cat'']
     [[(0, 0, 0, 0), (0, 0, 0, 0), (0, 0, 0, 0), (0, 0, 0, 0), (0, 0, 0, 0),
       (10 :: real, 20 :: real, 110 :: real, 120 :: real)]]
     [[[], [], [], [0, 0, 0, 0, 0, 87 / 100 :: real]]]
     [[(0, 3, 5)]] =
   Inr ([(10, 20, 110, 120)], [87 / 100], [''cat''])"
  using postprocess_gather
    [of "[(0, 3, 5)]" "[''person'', ''bicycle'', ''car'', ''cat'']"
      "[[(0, 0, 0, 0), (0, 0, 0, 0), (0, 0, 0, 0), (0, 0, 0, 0), (0, 0, 0, 0),
         (10 :: real, 20 :: real, 110 :: real, 120 :: real)]]"
      "[[[], [], [], [0, 0, 0, 0, 0, 87 / 100 :: real]]]" "[]"
      "[[(0, 0, 0, 0), (0, 0, 0, 0), (0, 0, 0, 0), (0, 0, 0, 0), (0, 0, 0, 0),
         (10 :: real, 20 :: real, 110 :: real, 120 :: real)]]"
      "[[[], [], [], [0, 0, 0, 0, 0, 87 / 100 :: real]]]"
      "[''person'', ''bicycle'', ''car'', ''cat'']"]
  by (simp add: valid_triple_def in_range_def)

text \<open>
  C2 (length and order). When every triple of the decoded slice is in range in Python's
  sense, \<open>postprocess\<close> returns, and each of its three lists is the slice mapped triple
  by triple to what Python reads there: one entry per triple, in the order of the slice,
  none dropped, repeated or moved.
\<close>

theorem postprocess_length_order:
  assumes "\<forall>t \<in> set sel. py_valid_triple classes rb rs t"
  shows "\<exists>boxes scores labels.
           postprocess classes rb rs (sel # others) = Inr (boxes, scores, labels) \<and>
           length boxes = length sel \<and> length scores = length sel \<and>
           length labels = length sel \<and>
           boxes = map (py_box rb) sel \<and>
           scores = map (py_score rs) sel \<and>
           labels = map (py_label classes) sel"
  using postprocess_loop_py_valid [OF assms, of "[]" "[]" "[]"]
  by (simp add: postprocess_first_slice)

theorem postprocess_length_order_witness:
  "py_valid_triple [''person'', ''cat'']
     [[(1 :: int, 2 :: int, 3 :: int, 4 :: int), (5, 6, 7, 8)]]
     [[[1 / 2, 1 / 4 :: real], [3 / 4, 7 / 8]]] (0, 1, 1) \<and>
   py_valid_triple [''person'', ''cat'']
     [[(1 :: int, 2 :: int, 3 :: int, 4 :: int), (5, 6, 7, 8)]]
     [[[1 / 2, 1 / 4 :: real], [3 / 4, 7 / 8]]] (0, 0, 0) \<and>
   py_valid_triple [''person'', ''cat'']
     [[(1 :: int, 2 :: int, 3 :: int, 4 :: int), (5, 6, 7, 8)]]
     [[[1 / 2, 1 / 4 :: real], [3 / 4, 7 / 8]]] (0, 1, 0) \<and>
   postprocess [''person'', ''cat'']
     [[(1 :: int, 2 :: int, 3 :: int, 4 :: int), (5, 6, 7, 8)]]
     [[[1 / 2, 1 / 4 :: real], [3 / 4, 7 / 8]]]
     [[(0, 1, 1), (0, 0, 0), (0, 1, 0)]] =
   Inr ([(5, 6, 7, 8), (1, 2, 3, 4), (1, 2, 3, 4)], [7 / 8, 1 / 2, 3 / 4],
        [''cat'', ''person'', ''cat''])"
  using postprocess_length_order
    [of "[(0, 1, 1), (0, 0, 0), (0, 1, 0)]" "[''person'', ''cat'']"
      "[[(1 :: int, 2 :: int, 3 :: int, 4 :: int), (5, 6, 7, 8)]]"
      "[[[1 / 2, 1 / 4 :: real], [3 / 4, 7 / 8]]]" "[]"]
  by (simp add: py_valid_triple_def py_in_range_def py_pos_def py_box_def py_score_def
      py_label_def)

text \<open>
  C3 (class id out of range), as the code has it. A class index in \<open>[-len, 0)\<close> is read
  from the back of the label table and does not fail: decoding \<open>(0, -1, 0)\<close> against a
  two-entry table returns the last label.
\<close>

theorem postprocess_class_outside_counterexample:
  "\<not> in_range (length [''person'', ''cat'']) (- 1) \<and>
   postprocess [''person'', ''cat''] [[(10 :: int, 20 :: int, 110 :: int, 120 :: int)]]
     [[[1 / 2 :: real], [7 / 8]]] [[(0, - 1, 0)]] =
   Inr ([(10, 20, 110, 120)], [7 / 8], [''cat''])"
  by (simp add: in_range_def postprocess_def postprocess_body_def np_getitem3_def
      np_getitem2_def py_getitem_def)

text \<open>
  C3, amended. When some triple of the decoded slice has a class index \<open>c\<close> with
  \<open>c \<ge> len(classes)\<close> or \<open>c < -len(classes)\<close>, as \<open>999\<close> against an 80-entry table,
  \<open>postprocess\<close> fails with \<open>IndexError\<close>; the result is the error alone, so no list
  built for the triples before the bad one is returned.
\<close>

theorem postprocess_class_out_of_range:
  assumes "(b, c, k) \<in> set sel"
    and "int (length classes) \<le> c \<or> c < - int (length classes)"
  shows "postprocess classes rb rs (sel # others) = Inl IndexError"
proof -
  have "\<not> py_in_range (length classes) c"
    using assms(2) by (auto simp: py_in_range_def)
  then have "postprocess_body classes rb rs (b, c, k) = Inl IndexError"
    by (rule postprocess_body_bad_class)
  with assms(1) have "postprocess_loop classes rb rs sel ([], [], []) = Inl IndexError"
    by (rule postprocess_loop_fails)
  then show ?thesis by (simp add: postprocess_first_slice)
qed

theorem postprocess_class_out_of_range_witness:
  "(0, 999, 0) \<in> set [(0, 0, 0), (0, 999, 0)] \<and>
   length (replicate 80 ''label'') = 80 \<and>
   postprocess (replicate 80 ''label'')
     [[(10 :: int, 20 :: int, 110 :: int, 120 :: int)]]
     [[replicate 80 [1 / 2 :: real]]] [[(0, 0, 0), (0, 999, 0)]] = Inl IndexError"
  using postprocess_class_out_of_range
    [of 0 999 0 "[(0, 0, 0), (0, 999, 0)]" "replicate 80 ''label''"
      "[[(10 :: int, 20 :: int, 110 :: int, 120 :: int)]]"
      "[[replicate 80 [1 / 2 :: real]]]" "[]"]
  by simp

text \<open>
  C9 (negative class index), as the code has it. A class index in \<open>[-len, 0)\<close> is not
  enough for the call to succeed: against a two-entry table and one candidate, the triple
  \<open>(0, -1, 5)\<close> fails on the read of its score, and the slice
  \<open>[(0, -1, 0), (0, 999, 0)]\<close> fails on the class index of its second triple.
\<close>

theorem postprocess_negative_class_counterexample:
  "- int (length [''person'', ''cat'']) \<le> - 1 \<and> (- 1 :: int) < 0 \<and>
   postprocess [''person'', ''cat''] [[(10 :: int, 20 :: int, 110 :: int, 120 :: int)]]
     [[[1 / 2 :: real], [7 / 8]]] [[(0, - 1, 5)]] = Inl IndexError \<and>
   postprocess [''person'', ''cat''] [[(10 :: int, 20 :: int, 110 :: int, 120 :: int)]]
     [[[1 / 2 :: real], [7 / 8]]] [[(0, - 1, 0), (0, 999, 0)]] = Inl IndexError"
  by (simp add: postprocess_def postprocess_body_def np_getitem3_def
      np_getitem2_def py_getitem_def)

text \<open>
  C9, amended. A class index \<open>c\<close> with \<open>-len(classes) \<le> c < 0\<close> does not by itself
  make the decoder fail: when the score and the box of the triple can be read, decoding
  that triple returns the label \<open>classes[len(classes) + c]\<close> (first part). When every
  index of every triple of the decoded slice is in range in Python's sense,
  \<open>postprocess\<close> returns; for a triple \<open>(b, c, k)\<close> at position \<open>i\<close> with
  \<open>c < 0\<close> the label is \<open>classes[len(classes) + c]\<close>, and the score and the box are
  read at the positions \<open>py_pos\<close> gives, which adds the axis length to a negative
  batch, class or candidate index (second part).
\<close>

theorem postprocess_negative_indices:
  "(- int (length classes) \<le> c \<and> c < 0 \<and>
    np_getitem3 rs (b, c, k) = Inr score \<and> np_getitem2 rb (b, k) = Inr box \<longrightarrow>
      postprocess classes rb rs ([(b, c, k)] # others) =
        Inr ([box], [score], [classes ! nat (int (length classes) + c)])) \<and>
   ((\<forall>t \<in> set sel. py_valid_triple classes rb' rs' t) \<and> i < length sel \<and>
    sel ! i = (b', c', k') \<longrightarrow>
      (\<exists>boxes scores labels.
         postprocess classes rb' rs' (sel # others) = Inr (boxes, scores, labels) \<and>
         (c' < 0 \<longrightarrow> labels ! i = classes ! nat (int (length classes) + c')) \<and>
         scores ! i =
           rs' ! py_pos (length rs') b'
               ! py_pos (length (rs' ! py_pos (length rs') b')) c'
               ! py_pos (length (rs' ! py_pos (length rs') b'
                                     ! py_pos (length (rs' ! py_pos (length rs') b')) c')) k' \<and>
         boxes ! i =
           rb' ! py_pos (length rb') b' ! py_pos (length (rb' ! py_pos (length rb') b')) k'))"
proof (intro conjI impI)
  assume h: "- int (length classes) \<le> c \<and> c < 0 \<and>
    np_getitem3 rs (b, c, k) = Inr score \<and> np_getitem2 rb (b, k) = Inr box"
  then have "py_getitem classes c = Inr (classes ! nat (int (length classes) + c))"
    by (simp add: py_getitem_def add.commute)
  with h show "postprocess classes rb rs ([(b, c, k)] # others) =
        Inr ([box], [score], [classes ! nat (int (length classes) + c)])"
    by (simp add: postprocess_first_slice postprocess_body_def)
next
  assume h: "(\<forall>t \<in> set sel. py_valid_triple classes rb' rs' t) \<and> i < length sel \<and>
    sel ! i = (b', c', k')"
  then have valid: "\<forall>t \<in> set sel. py_valid_triple classes rb' rs' t" by blast
  have res: "postprocess classes rb' rs' (sel # others) =
      Inr (map (py_box rb') sel, map (py_score rs') sel, map (py_label classes) sel)"
    using postprocess_loop_py_valid [OF valid, of "[]" "[]" "[]"]
    by (simp add: postprocess_first_slice)
  have "c' < 0 \<longrightarrow> py_pos (length classes) c' = nat (int (length classes) + c')"
    by (simp add: py_pos_def add.commute)
  then show "\<exists>boxes scores labels.
         postprocess classes rb' rs' (sel # others) = Inr (boxes, scores, labels) \<and>
         (c' < 0 \<longrightarrow> labels ! i = classes ! nat (int (length classes) + c')) \<and>
         scores ! i =
           rs' ! py_pos (length rs') b'
               ! py_pos (length (rs' ! py_pos (length rs') b')) c'
               ! py_pos (length (rs' ! py_pos (length rs') b'
                                     ! py_pos (length (rs' ! py_pos (length rs') b')) c')) k' \<and>
         boxes ! i =
           rb' ! py_pos (length rb') b' ! py_pos (length (rb' ! py_pos (length rb') b')) k'"
    using res h by (simp add: py_label_def py_score_def py_box_def Let_def)
qed

theorem postprocess_negative_indices_witness:
  "py_valid_triple [''person'', ''cat'']
     [[(1 :: int, 2 :: int, 3 :: int, 4 :: int), (5, 6, 7, 8)]]
     [[[1 / 2, 1 / 4 :: real], [3 / 4, 7 / 8]]] (- 1, - 1, - 2) \<and>
   np_getitem3 [[[1 / 2, 1 / 4 :: real], [3 / 4, 7 / 8]]] (- 1, - 1, - 2) = Inr (3 / 4) \<and>
   np_getitem2 [[(1 :: int, 2 :: int, 3 :: int, 4 :: int), (5, 6, 7, 8)]] (- 1, - 2) =
     Inr (1, 2, 3, 4) \<and>
   postprocess [''person'', ''cat'']
     [[(1 :: int, 2 :: int, 3 :: int, 4 :: int), (5, 6, 7, 8)]]
     [[[1 / 2, 1 / 4 :: real], [3 / 4, 7 / 8]]]
     [[(- 1, - 1, - 2)]] =
   Inr ([(1, 2, 3, 4)], [3 / 4], [''cat''])"
  using postprocess_negative_indices
    [of "[''person'', ''cat'']" "- 1" "[[[1 / 2, 1 / 4 :: real], [3 / 4, 7 / 8]]]" "- 1" "- 2"
      "3 / 4" "[[(1 :: int, 2 :: int, 3 :: int, 4 :: int), (5, 6, 7, 8)]]" "(1, 2, 3, 4)" "[]"
      "[(- 1, - 1, - 2)]"
      "[[(1 :: int, 2 :: int, 3 :: int, 4 :: int), (5, 6, 7, 8)]]"
      "[[[1 / 2, 1 / 4 :: real], [3 / 4, 7 / 8]]]" 0 "- 1" "- 1" "- 2"]
  by (simp add: py_valid_triple_def py_in_range_def py_pos_def np_getitem3_def np_getitem2_def
      py_getitem_def)

text \<open>
  C10 (only the first slice). \<open>postprocess\<close> loops over \<open>raw_class_indices[0]\<close>
  alone: whatever is stored under the other leading indices, the result is the same, the
  one of the first slice by itself.
\<close>

theorem postprocess_only_first_slice:
  "postprocess classes rb rs (sel # others) = postprocess classes rb rs [sel] \<and>
   postprocess classes rb rs (sel # others) = postprocess classes rb rs (sel # others')"
  by (simp add: postprocess_first_slice)

section \<open>Properties of the renderer\<close>

text \<open>
  C6 (box rescaling). For a box \<open>(ymin, xmin, ymax, xmax)\<close> drawn on an image of width
  \<open>W\<close> and height \<open>H\<close>, the outline is the line through \<open>(left, top)\<close>,
  \<open>(left, bottom)\<close>, \<open>(right, bottom)\<close>, \<open>(right, top)\<close>, \<open>(left, top)\<close> with
  \<open>left = xmin * (W / 416)\<close>, \<open>right = xmax * (W / 416)\<close>,
  \<open>top = ymin * (H / 416)\<close>, \<open>bottom = ymax * (H / 416)\<close>. This holds for every
  box that \<open>draw_boxes\<close> draws (first part), and for \<open>_draw_bounding_box_on_image\<close>
  by itself, where nothing else it draws is a line (second part); on an 832 x 832 image
  the box \<open>(10, 20, 110, 120)\<close> gets left 40, top 20, right 240, bottom 220 (third
  part).
\<close>

theorem draw_boxes_rescales_boxes:
  "(files w image_path = Some im \<and> im_size im = (W, H) \<and> colors \<noteq> [] \<and>
    length classes \<le> length boxes \<and> length classes \<le> length scores \<longrightarrow>
      (\<exists>image_pil.
         draw_boxes fl colors hash getbbox w image_path boxes scores classes = (Inr image_pil, w) \<and>
         outlines (drawn image_pil) =
           map (\<lambda>(ymin, xmin, ymax, xmax).
                  [(xmin * (real_of_int W / 416), ymin * (real_of_int H / 416)),
                   (xmin * (real_of_int W / 416), ymax * (real_of_int H / 416)),
                   (xmax * (real_of_int W / 416), ymax * (real_of_int H / 416)),
                   (xmax * (real_of_int W / 416), ymin * (real_of_int H / 416)),
                   (xmin * (real_of_int W / 416), ymin * (real_of_int H / 416))])
               (take (length classes) boxes))) \<and>
   (\<exists>label_ops.
      drawn (draw_bounding_box_on_image getbbox'
               \<lparr>loaded = \<lparr>im_size = (W', H'), px = p\<rparr>, drawn = ops\<rparr>
               ymin' xmin' ymax' xmax' color thickness strs) =
        ops @
        Line [(xmin' * (real_of_int W' / 416), ymin' * (real_of_int H' / 416)),
              (xmin' * (real_of_int W' / 416), ymax' * (real_of_int H' / 416)),
              (xmax' * (real_of_int W' / 416), ymax' * (real_of_int H' / 416)),
              (xmax' * (real_of_int W' / 416), ymin' * (real_of_int H' / 416)),
              (xmin' * (real_of_int W' / 416), ymin' * (real_of_int H' / 416))]
          thickness color #
        label_ops \<and>
      outlines label_ops = []) \<and>
   (\<exists>label_ops.
      drawn (draw_bounding_box_on_image getbbox'
               \<lparr>loaded = \<lparr>im_size = (832, 832), px = p\<rparr>, drawn = []\<rparr>
               10 20 110 120 color thickness strs) =
        Line [(40, 20), (40, 220), (240, 220), (240, 20), (40, 20)] thickness color #
        label_ops \<and>
      outlines label_ops = [])"
proof (intro conjI impI)
  assume h: "files w image_path = Some im \<and> im_size im = (W, H) \<and> colors \<noteq> [] \<and>
    length classes \<le> length boxes \<and> length classes \<le> length scores"
  have fn: "box_outline (W, H) =
      (\<lambda>(ymin, xmin, ymax, xmax).
         [(xmin * (real_of_int W / 416), ymin * (real_of_int H / 416)),
          (xmin * (real_of_int W / 416), ymax * (real_of_int H / 416)),
          (xmax * (real_of_int W / 416), ymax * (real_of_int H / 416)),
          (xmax * (real_of_int W / 416), ymin * (real_of_int H / 416)),
          (xmin * (real_of_int W / 416), ymin * (real_of_int H / 416))])"
    by (rule ext) (simp add: box_outline_def split: prod.splits)
  from h draw_boxes_facts [of w image_path im colors classes boxes scores fl hash getbbox]
  show "\<exists>image_pil.
         draw_boxes fl colors hash getbbox w image_path boxes scores classes = (Inr image_pil, w) \<and>
         outlines (drawn image_pil) =
           map (\<lambda>(ymin, xmin, ymax, xmax).
                  [(xmin * (real_of_int W / 416), ymin * (real_of_int H / 416)),
                   (xmin * (real_of_int W / 416), ymax * (real_of_int H / 416)),
                   (xmax * (real_of_int W / 416), ymax * (real_of_int H / 416)),
                   (xmax * (real_of_int W / 416), ymin * (real_of_int H / 416)),
                   (xmin * (real_of_int W / 416), ymin * (real_of_int H / 416))])
               (take (length classes) boxes)"
    unfolding fn [symmetric] by auto
next
  from draw_bounding_box_drawn
    [of getbbox' "\<lparr>loaded = \<lparr>im_size = (W', H'), px = p\<rparr>, drawn = ops\<rparr>"
      ymin' xmin' ymax' xmax' color thickness strs]
  show "\<exists>label_ops.
      drawn (draw_bounding_box_on_image getbbox'
               \<lparr>loaded = \<lparr>im_size = (W', H'), px = p\<rparr>, drawn = ops\<rparr>
               ymin' xmin' ymax' xmax' color thickness strs) =
        ops @
        Line [(xmin' * (real_of_int W' / 416), ymin' * (real_of_int H' / 416)),
              (xmin' * (real_of_int W' / 416), ymax' * (real_of_int H' / 416)),
              (xmax' * (real_of_int W' / 416), ymax' * (real_of_int H' / 416)),
              (xmax' * (real_of_int W' / 416), ymin' * (real_of_int H' / 416)),
              (xmin' * (real_of_int W' / 416), ymin' * (real_of_int H' / 416))]
          thickness color #
        label_ops \<and>
      outlines label_ops = []"
    by (simp add: box_outline_def)
next
  from draw_bounding_box_drawn
    [of getbbox' "\<lparr>loaded = \<lparr>im_size = (832, 832), px = p\<rparr>, drawn = []\<rparr>"
      10 20 110 120 color thickness strs]
  show "\<exists>label_ops.
      drawn (draw_bounding_box_on_image getbbox'
               \<lparr>loaded = \<lparr>im_size = (832, 832), px = p\<rparr>, drawn = []\<rparr>
               10 20 110 120 color thickness strs) =
        Line [(40, 20), (40, 220), (240, 220), (240, 20), (40, 20)] thickness color #
        label_ops \<and>
      outlines label_ops = []"
    by (simp add: box_outline_def)
qed

theorem draw_boxes_rescales_boxes_witness:
  "\<exists>image_pil.
     draw_boxes (\<lambda>x. x) [''#f0f8ff'', ''#faebd7''] (\<lambda>s. int (length s))
     (\<lambda>s. (0, 0, 6 * real (length s), 11))
     \<lparr>files = [''cat.jpg'' \<mapsto> \<lparr>im_size = (832, 832), px = (\<lambda>x y. (0, 0, 0))\<rparr>]\<rparr>
     ''cat.jpg'' [(10, 20, 110, 120)] [15 / 16] [''cat''] =
       (Inr image_pil,
        \<lparr>files = [''cat.jpg'' \<mapsto> \<lparr>im_size = (832, 832), px = (\<lambda>x y. (0, 0, 0))\<rparr>]\<rparr>) \<and>
     outlines (drawn image_pil) = [[(40, 20), (40, 220), (240, 220), (240, 20), (40, 20)]]"
  using draw_boxes_rescales_boxes
    [of "\<lparr>files = [''cat.jpg'' \<mapsto> \<lparr>im_size = (832, 832), px = (\<lambda>x y. (0, 0, 0))\<rparr>]\<rparr>"
      "''cat.jpg''" "\<lparr>im_size = (832, 832), px = (\<lambda>x y. (0, 0, 0))\<rparr>" 832 832
      "[''#f0f8ff'', ''#faebd7'']" "[''cat'']" "[(10, 20, 110, 120)]" "[15 / 16]"
      "\<lambda>x. x" "\<lambda>s. int (length s)" "\<lambda>s. (0, 0, 6 * real (length s), 11)"]
  by simp

text \<open>
  C7 (label text), as the code has it. The percentage is \<open>int(100 * score)\<close>, which
  drops the fraction: for the label \<open>cat\<close> and the score \<open>0.9375\<close> the text drawn
  is \<open>cat: 93%\<close>, while \<open>100 * 0.9375 = 93.75\<close> rounds to 94. The score and the
  product are exact in binary, so no rounding takes part here (\<open>fl\<close> is the identity).
\<close>

theorem draw_boxes_display_str_counterexample:
  "fst (draw_boxes (\<lambda>x. x) [''#f0f8ff'', ''#faebd7''] (\<lambda>s. int (length s))
     (\<lambda>s. (0, 0, 6 * real (length s), 11))
     \<lparr>files = [''cat.jpg'' \<mapsto> \<lparr>im_size = (832, 832), px = (\<lambda>x y. (0, 0, 0))\<rparr>]\<rparr>
     ''cat.jpg'' [(10, 20, 110, 120)] [15 / 16] [''cat'']) =
     Inr \<lparr>loaded = \<lparr>im_size = (832, 832), px = (\<lambda>x y. (0, 0, 0))\<rparr>,
          drawn =
            [Line [(40, 20), (40, 220), (240, 220), (240, 20), (40, 20)] 4 (Some ''#f0f8ff''),
             Rectangle ((40, 7), (88, 20)) (Some ''#f0f8ff''),
             Text (41, 8) ''cat: 93%'' ''black'']\<rparr> \<and>
   display_str (\<lambda>x. x) ''cat'' (15 / 16) = ''cat: 93%'' \<and>
   ''cat: '' @ py_str_int (round (100 * (15 / 16 :: real))) @ ''%'' = ''cat: 94%''"
  by (simp add: draw_boxes_def draw_bounding_box_on_image_def palette_color_def py_getitem_def
      display_str_def py_int_def py_str_int_def nat_digits.simps digit_char_def Let_def draw_def round_def)

text \<open>
  C7, amended. For every detection with label \<open>L\<close> and score \<open>s\<close> the renderer
  draws the text \<open>"{L}: {int(100 * s)}%"\<close>: the percentage is the float product
  \<open>100 * s\<close>, that is the exact product rounded by \<open>fl\<close>, with its fraction dropped
  (towards zero), printed in decimal. This holds for every rounding \<open>fl\<close>, so for the
  one of the machine. The texts drawn are these strings, one per label, in the order of
  the labels.
\<close>

theorem draw_boxes_display_strings:
  assumes "files w image_path = Some im" and "colors \<noteq> []"
    and "length classes \<le> length boxes" and "length classes \<le> length scores"
  shows "\<exists>image_pil.
           draw_boxes fl colors hash getbbox w image_path boxes scores classes = (Inr image_pil, w) \<and>
           texts (drawn image_pil) =
             map2 (\<lambda>L s. L @ '': '' @
                      py_str_int (if 0 \<le> fl (100 * s) then \<lfloor>fl (100 * s)\<rfloor>
                                  else \<lceil>fl (100 * s)\<rceil>) @ ''%'')
               classes (take (length classes) scores)"
proof -
  have fn: "display_str fl =
      (\<lambda>L s. L @ '': '' @
         py_str_int (if 0 \<le> fl (100 * s) then \<lfloor>fl (100 * s)\<rfloor>
                     else \<lceil>fl (100 * s)\<rceil>) @ ''%'')"
    by (intro ext) (simp add: display_str_def py_int_def)
  from draw_boxes_facts [OF assms, of fl hash getbbox]
  show ?thesis unfolding fn by auto
qed

text \<open>
  An instance with rounding. Here \<open>fl\<close> rounds to the nearest multiple of \<open>2^-47\<close>,
  as double arithmetic does between 32 and 64, and the second score is the double nearest
  to 0.35, \<open>3152519739159347 / 2^53\<close>: its exact product with 100 lies just below 35
  and rounds to 35, so the text is \<open>dog: 35%\<close>.
\<close>

theorem draw_boxes_display_strings_witness:
  "\<exists>image_pil.
     draw_boxes (\<lambda>x. real_of_int (round (x * 2 ^ 47)) / 2 ^ 47)
       [''#f0f8ff'', ''#faebd7''] (\<lambda>s. int (length s))
       (\<lambda>s. (0, 0, 6 * real (length s), 11))
       \<lparr>files = [''cat.jpg'' \<mapsto> \<lparr>im_size = (832, 832), px = (\<lambda>x y. (0, 0, 0))\<rparr>]\<rparr>
       ''cat.jpg'' [(10, 20, 110, 120), (0, 0, 416, 416)]
       [15 / 16, 3152519739159347 / 2 ^ 53] [''cat'', ''dog''] =
       (Inr image_pil,
        \<lparr>files = [''cat.jpg'' \<mapsto> \<lparr>im_size = (832, 832), px = (\<lambda>x y. (0, 0, 0))\<rparr>]\<rparr>) \<and>
     texts (drawn image_pil) = [''cat: 93%'', ''dog: 35%'']"
  using draw_boxes_display_strings
    [of "\<lparr>files = [''cat.jpg'' \<mapsto> \<lparr>im_size = (832, 832), px = (\<lambda>x y. (0, 0, 0))\<rparr>]\<rparr>"
      "''cat.jpg''" "\<lparr>im_size = (832, 832), px = (\<lambda>x y. (0, 0, 0))\<rparr>"
      "[''#f0f8ff'', ''#faebd7'']" "[''cat'', ''dog'']"
      "[(10, 20, 110, 120), (0, 0, 416, 416)]" "[15 / 16, 3152519739159347 / 2 ^ 53]"
      "\<lambda>x. real_of_int (round (x * 2 ^ 47)) / 2 ^ 47" "\<lambda>s. int (length s)"
      "\<lambda>s. (0, 0, 6 * real (length s), 11)"]
  by (simp add: py_str_int_def nat_digits.simps digit_char_def round_def)

text \<open>
  C8 (no detections). With an empty list of labels \<open>draw_boxes\<close> returns the image it
  opened with nothing drawn on it, so its pixels are those of the file. For every input
  the files are left as they were: drawing happens on the image object that
  \<open>Image.open\<close> returned, not on the file.
\<close>

theorem draw_boxes_empty:
  "(files w image_path = Some im \<longrightarrow>
      draw_boxes fl colors hash getbbox w image_path boxes scores [] =
        (Inr \<lparr>loaded = im, drawn = []\<rparr>, w)) \<and>
   snd (draw_boxes fl colors hash getbbox w image_path boxes scores classes) = w"
  by (simp add: draw_boxes_world) (simp add: draw_boxes_def)

theorem draw_boxes_empty_witness:
  "files \<lparr>files = [''cat.jpg'' \<mapsto> \<lparr>im_size = (832, 832), px = (\<lambda>x y. (0, 0, 0))\<rparr>]\<rparr>
     ''cat.jpg'' = Some \<lparr>im_size = (832, 832), px = (\<lambda>x y. (0, 0, 0))\<rparr> \<and>
   draw_boxes (\<lambda>x. x) [''#f0f8ff'', ''#faebd7''] (\<lambda>s. int (length s))
     (\<lambda>s. (0, 0, 6 * real (length s), 11))
     \<lparr>files = [''cat.jpg'' \<mapsto> \<lparr>im_size = (832, 832), px = (\<lambda>x y. (0, 0, 0))\<rparr>]\<rparr>
     ''cat.jpg'' [] [] [] =
     (Inr \<lparr>loaded = \<lparr>im_size = (832, 832), px = (\<lambda>x y. (0, 0, 0))\<rparr>, drawn = []\<rparr>,
      \<lparr>files = [''cat.jpg'' \<mapsto> \<lparr>im_size = (832, 832), px = (\<lambda>x y. (0, 0, 0))\<rparr>]\<rparr>)"
  using draw_boxes_empty
    [of "\<lparr>files = [''cat.jpg'' \<mapsto> \<lparr>im_size = (832, 832), px = (\<lambda>x y. (0, 0, 0))\<rparr>]\<rparr>"
      "''cat.jpg''" "\<lparr>im_size = (832, 832), px = (\<lambda>x y. (0, 0, 0))\<rparr>"
      "\<lambda>x. x" "[''#f0f8ff'', ''#faebd7'']" "\<lambda>s. int (length s)"
      "\<lambda>s. (0, 0, 6 * real (length s), 11)" "[]" "[]" "[]"]
  by simp

section \<open>Properties of the letterbox transform\<close>

text \<open>
  C4 (letterbox output), as the code has it. An image of positive width and height can
  scale to an empty size: for a 1 x 832 image \<open>scale = min(416/1, 416/832) = 0.5\<close> and
  \<open>nw = int(1 * 0.5) = 0\<close>, and \<open>resize\<close> refuses the size \<open>(0, 416)\<close>, so
  \<open>transform\<close> raises \<open>ValueError\<close> and returns no tensor.
\<close>

theorem transform_thin_image_counterexample:
  "(0 :: int) < 1 \<and> (0 :: int) < 832 \<and>
   transform (\<lambda>x. x) (\<lambda>im sz x y. (0, 0, 0))
     \<lparr>im_size = (1, 832), px = (\<lambda>x y. (0, 0, 0))\<rparr> = Inl ValueError"
  by (simp add: transform_def letterbox_image_def resize_def py_int_def Let_def)

text \<open>
  C4, amended. Take an image of positive width \<open>iw\<close> and height \<open>ih\<close>, a target size
  \<open>(w, h)\<close>, \<open>scale = min(w/iw, h/ih)\<close>, \<open>nw = floor(iw*scale)\<close> and
  \<open>nh = floor(ih*scale)\<close>, and suppose \<open>nw \<ge> 1\<close> and \<open>nh \<ge> 1\<close>. Then
  \<open>letterbox_image\<close> returns an image of size \<open>(w, h)\<close> that shows the resized image in
  the rectangle of size \<open>(nw, nh)\<close> at offset \<open>((w-nw)//2, (h-nh)//2)\<close> and
  \<open>(128, 128, 128)\<close> elsewhere; the tensor made from it has shape \<open>(1, 3, h, w)\<close>,
  holds channel \<open>c\<close> of pixel \<open>(x, y)\<close> divided by 255 at \<open>[0, c, y, x]\<close>, and
  has every value in \<open>[0, 1]\<close>; and for the target \<open>(416, 416)\<close> this tensor is what
  \<open>transform\<close> returns. The result is a function of the image, the filter and the
  rounding alone, and the input image is not changed: it is a value.
\<close>

theorem transform_letterbox:
  assumes "im_size img = (iw, ih)" and "0 < iw" and "0 < ih" and "0 \<le> w" and "0 \<le> h"
    and "scale = min (fl (real_of_int w / real_of_int iw)) (fl (real_of_int h / real_of_int ih))"
    and "nw = \<lfloor>fl (real_of_int iw * scale)\<rfloor>" and "nh = \<lfloor>fl (real_of_int ih * scale)\<rfloor>"
    and "1 \<le> nw" and "1 \<le> nh"
  shows "\<exists>boxed t.
           letterbox_image fl bicubic img (w, h) = Inr boxed \<and>
           im_size boxed = (w, h) \<and>
           (\<forall>x y. px boxed x y =
              (if (w - nw) div 2 \<le> x \<and> x < (w - nw) div 2 + nw \<and>
                  (h - nh) div 2 \<le> y \<and> y < (h - nh) div 2 + nh
               then (if (iw, ih) = (nw, nh) then px img else bicubic img (nw, nh))
                      (x - (w - nw) div 2) (y - (h - nh) div 2)
               else (128, 128, 128))) \<and>
           t = np_expand_dims_0 (np_transpose_201 (np_divide (np_array boxed) 255)) \<and>
           shape t = [1, 3, nat h, nat w] \<and>
           (\<forall>c y x. elem t [0, c, y, x] = real (unat (channel c (px boxed (int x) (int y)))) / 255) \<and>
           (\<forall>ix. in_shape (shape t) ix \<longrightarrow> 0 \<le> elem t ix \<and> elem t ix \<le> 1) \<and>
           (w = 416 \<and> h = 416 \<longrightarrow>
              transform fl bicubic img = Inr t \<and> shape t = [1, 3, 416, 416])"
proof -
  define boxed where "boxed =
    \<lparr>im_size = (w, h),
     px = (\<lambda>x y.
       if (w - nw) div 2 \<le> x \<and> x < (w - nw) div 2 + nw \<and>
          (h - nh) div 2 \<le> y \<and> y < (h - nh) div 2 + nh
       then (if (iw, ih) = (nw, nh) then px img else bicubic img (nw, nh))
              (x - (w - nw) div 2) (y - (h - nh) div 2)
       else (128, 128, 128))\<rparr>"
  define t where "t = np_expand_dims_0 (np_transpose_201 (np_divide (np_array boxed) 255))"
  have "iw \<noteq> 0" "ih \<noteq> 0" using assms(2,3) by simp_all
  from letterbox_image_ok [OF assms(1) this assms(4-10), of bicubic]
  have lb: "letterbox_image fl bicubic img (w, h) = Inr boxed"
    by (simp add: boxed_def)
  have sz: "im_size boxed = (w, h)" by (simp add: boxed_def)
  have pix: "\<forall>x y. px boxed x y =
      (if (w - nw) div 2 \<le> x \<and> x < (w - nw) div 2 + nw \<and>
          (h - nh) div 2 \<le> y \<and> y < (h - nh) div 2 + nh
       then (if (iw, ih) = (nw, nh) then px img else bicubic img (nw, nh))
              (x - (w - nw) div 2) (y - (h - nh) div 2)
       else (128, 128, 128))"
    by (simp add: boxed_def)
  have sh: "shape t = [1, 3, nat h, nat w]"
    unfolding t_def by (rule tensor_shape [OF sz])
  have el: "\<forall>c y x. elem t [0, c, y, x] = real (unat (channel c (px boxed (int x) (int y)))) / 255"
    unfolding t_def by (simp only: tensor_elem_at) simp
  have unit: "\<forall>ix. in_shape (shape t) ix \<longrightarrow> 0 \<le> elem t ix \<and> elem t ix \<le> 1"
    unfolding t_def using tensor_elem_unit [of boxed] by blast
  have tr: "w = 416 \<and> h = 416 \<longrightarrow> transform fl bicubic img = Inr t \<and> shape t = [1, 3, 416, 416]"
    using lb sh by (auto simp: transform_def t_def)
  show ?thesis
    using lb sz pix sh el unit tr t_def by blast
qed

theorem transform_letterbox_witness:
  "\<exists>t. transform (\<lambda>x. x) (\<lambda>im sz x y. (0, 0, 0))
         \<lparr>im_size = (832, 416), px = (\<lambda>x y. (255, 255, 255))\<rparr> = Inr t \<and>
       shape t = [1, 3, 416, 416] \<and>
       elem t [0, 0, 0, 0] = 128 / 255 \<and> elem t [0, 2, 104, 0] = 0 \<and>
       0 \<le> elem t [0, 1, 415, 415] \<and> elem t [0, 1, 415, 415] \<le> 1"
proof -
  define img where "img = \<lparr>im_size = (832, 416), px = (\<lambda>x y. (255, 255, 255) :: rgb)\<rparr>"
  have h1: "im_size img = (832, 416)" by (simp add: img_def)
  have h6: "(1 / 2 :: real) = min ((\<lambda>x. x) (real_of_int 416 / real_of_int 832))
      ((\<lambda>x. x) (real_of_int 416 / real_of_int 416))"
    by simp
  have h7: "(416 :: int) = \<lfloor>(\<lambda>x. x) (real_of_int 832 * (1 / 2))\<rfloor>" by simp
  have h8: "(208 :: int) = \<lfloor>(\<lambda>x. x) (real_of_int 416 * (1 / 2))\<rfloor>" by simp
  have h2: "(0 :: int) < 832" and h3: "(0 :: int) < 416" and h4: "(0 :: int) \<le> 416"
    and h9: "(1 :: int) \<le> 416" and h10: "(1 :: int) \<le> 208"
    by simp_all
  from transform_letterbox [OF h1 h2 h3 h4 h4 h6 h7 h8 h9 h10, of "\<lambda>im sz x y. (0, 0, 0)"]
  obtain boxed t where all:
    "letterbox_image (\<lambda>x. x) (\<lambda>im sz x y. (0, 0, 0)) img (416, 416) = Inr boxed \<and>
     im_size boxed = (416, 416) \<and>
     (\<forall>x y. px boxed x y =
      (if (416 - 416) div 2 \<le> x \<and> x < (416 - 416) div 2 + 416 \<and>
          (416 - 208) div 2 \<le> y \<and> y < (416 - 208) div 2 + 208
       then (if ((832 :: int), (416 :: int)) = (416, 208) then px img else (\<lambda>x y. (0, 0, 0)))
              (x - (416 - 416) div 2) (y - (416 - 208) div 2)
       else (128, 128, 128))) \<and>
     t = np_expand_dims_0 (np_transpose_201 (np_divide (np_array boxed) 255)) \<and>
     shape t = [1, 3, nat 416, nat 416] \<and>
     (\<forall>c y x. elem t [0, c, y, x] = real (unat (channel c (px boxed (int x) (int y)))) / 255) \<and>
     (\<forall>ix. in_shape (shape t) ix \<longrightarrow> 0 \<le> elem t ix \<and> elem t ix \<le> 1) \<and>
     ((416 :: int) = 416 \<and> (416 :: int) = 416 \<longrightarrow>
      transform (\<lambda>x. x) (\<lambda>im sz x y. (0, 0, 0)) img = Inr t \<and> shape t = [1, 3, 416, 416])"
    by (elim exE) (erule that)
  have pix: "px boxed x y =
      (if (416 - 416) div 2 \<le> x \<and> x < (416 - 416) div 2 + 416 \<and>
          (416 - 208) div 2 \<le> y \<and> y < (416 - 208) div 2 + 208
       then (if ((832 :: int), (416 :: int)) = (416, 208) then px img else (\<lambda>x y. (0, 0, 0)))
              (x - (416 - 416) div 2) (y - (416 - 208) div 2)
       else (128, 128, 128))" for x y
    using all by blast
  have el: "elem t [0, c, y, x] = real (unat (channel c (px boxed (int x) (int y)))) / 255"
    for c y x
    using all by blast
  have unit: "in_shape (shape t) ix \<Longrightarrow> 0 \<le> elem t ix \<and> elem t ix \<le> 1" for ix
    using all by blast
  have tr: "transform (\<lambda>x. x) (\<lambda>im sz x y. (0, 0, 0)) img = Inr t \<and> shape t = [1, 3, 416, 416]"
    using all by blast
  have p00: "px boxed 0 0 = (128, 128, 128)"
    by (simp add: pix)
  have p104: "px boxed 0 104 = (0, 0, 0)"
    by (simp add: pix)
  have e1: "elem t [0, 0, 0, 0] = 128 / 255"
    using el [of 0 0 0] p00 by (simp add: channel_def)
  have e2: "elem t [0, 2, 104, 0] = 0"
    using el [of 2 104 0] p104 by (simp add: channel_def)
  have "in_shape (shape t) [0, 1, 415, 415]"
    using tr by (simp add: in_shape_def)
  then have e3: "0 \<le> elem t [0, 1, 415, 415] \<and> elem t [0, 1, 415, 415] \<le> 1"
    by (rule unit)
  show ?thesis
    using tr e1 e2 e3 unfolding img_def by blast
qed

text \<open>
  C5 (zero-size image), as the code has it. \<open>letterbox_image\<close> has no check of the
  image size: on a 0 x 5 image the first thing it computes is \<open>w/iw\<close> with
  \<open>iw = 0\<close>, and the failure is the \<open>ZeroDivisionError\<close> of that division.
\<close>

theorem letterbox_image_zero_size_counterexample:
  "letterbox_image (\<lambda>x. x) (\<lambda>im sz x y. (0, 0, 0))
     \<lparr>im_size = (0, 5), px = (\<lambda>x y. (0, 0, 0))\<rparr> (416, 416) = Inl ZeroDivisionError \<and>
   transform (\<lambda>x. x) (\<lambda>im sz x y. (0, 0, 0))
     \<lparr>im_size = (0, 5), px = (\<lambda>x y. (0, 0, 0))\<rparr> = Inl ZeroDivisionError"
  by (simp add: transform_def letterbox_image_def)

text \<open>
  C5, amended. For every input image with \<open>iw = 0\<close> or \<open>ih = 0\<close>,
  \<open>letterbox_image\<close> fails, for every target size, with the \<open>ZeroDivisionError\<close>
  of \<open>min(w/iw, h/ih)\<close>, and so does \<open>transform\<close>; nothing is resized or pasted.
\<close>

theorem letterbox_image_zero_size:
  assumes "im_size img = (iw, ih)" and "iw = 0 \<or> ih = 0"
  shows "letterbox_image fl bicubic img sz = Inl ZeroDivisionError \<and>
         transform fl bicubic img = Inl ZeroDivisionError"
proof -
  have "letterbox_image fl bicubic img sz' = Inl ZeroDivisionError" for sz'
    using assms by (cases sz') (auto simp: letterbox_image_def)
  then show ?thesis by (simp add: transform_def)
qed

theorem letterbox_image_zero_size_witness:
  "im_size \<lparr>im_size = (5, 0), px = (\<lambda>x y. (0, 0, 0))\<rparr> = (5, 0) \<and>
   letterbox_image (\<lambda>x. x) (\<lambda>im sz x y. (0, 0, 0))
     \<lparr>im_size = (5, 0), px = (\<lambda>x y. (0, 0, 0))\<rparr> (416, 416) = Inl ZeroDivisionError \<and>
   transform (\<lambda>x. x) (\<lambda>im sz x y. (0, 0, 0))
     \<lparr>im_size = (5, 0), px = (\<lambda>x y. (0, 0, 0))\<rparr> = Inl ZeroDivisionError"
  using letterbox_image_zero_size
    [of "\<lparr>im_size = (5, 0), px = (\<lambda>x y. (0, 0, 0))\<rparr>" 5 0 "\<lambda>x. x"
      "\<lambda>im sz x y. (0, 0, 0)" "(416, 416)"]
  by simp

end
